theory Spec2Isabelle
  imports Main "HOL-Library.Multiset"
begin

section \<open>Python values\<close>

text \<open>
  A Python \<open>str\<close> is a sequence of Unicode code points, and slicing and \<open>len\<close> count
  code points. A string is therefore a list of code points (natural numbers); \<open>str\<close>
  turns an ASCII literal into such a list. Python's \<open>int\<close> is unbounded: \<open>int\<close>.
  \<open>bytes\<close> is a list of byte values.
\<close>

type_synonym pystr = "nat list"
type_synonym bytes = "nat list"

definition str :: "string \<Rightarrow> pystr" where
  "str s = map of_char s"

text \<open>
  Slicing \<open>s[lo:hi]\<close> with optional bounds. A negative bound counts from the end, and
  every bound is clamped to \<open>0 .. len(s)\<close>; slicing never raises.
\<close>

definition py_bound :: "nat \<Rightarrow> int \<Rightarrow> nat" where
  "py_bound n i = (if i < 0 then nat (max 0 (int n + i)) else min n (nat i))"

definition py_slice :: "'a list \<Rightarrow> int option \<Rightarrow> int option \<Rightarrow> 'a list" where
  "py_slice s lo hi =
     (let n = length s;
          a = (case lo of None \<Rightarrow> 0 | Some i \<Rightarrow> py_bound n i);
          b = (case hi of None \<Rightarrow> n | Some j \<Rightarrow> py_bound n j)
      in take (b - a) (drop a s))"

section \<open>Message formatter\<close>

text \<open>
  An entity is a dict read with \<open>entity.get('type')\<close>, \<open>entity.get('offset', 0)\<close> and
  \<open>entity.get('length', 0)\<close>: each key may be missing.
\<close>

record entity =
  e_type :: "pystr option"
  e_offset :: "int option"
  e_length :: "int option"

definition get_offset :: "entity \<Rightarrow> int" where
  "get_offset e = (case e_offset e of None \<Rightarrow> 0 | Some i \<Rightarrow> i)"

definition get_length :: "entity \<Rightarrow> int" where
  "get_length e = (case e_length e of None \<Rightarrow> 0 | Some i \<Rightarrow> i)"

text \<open>
  \<open>formatted_text[:offset] + open + formatted_text[offset:offset+length] + close +
  formatted_text[offset+length:]\<close>, the right-hand side shared by the five branches.
\<close>

definition wrap :: "pystr \<Rightarrow> pystr \<Rightarrow> int \<Rightarrow> int \<Rightarrow> pystr \<Rightarrow> pystr" where
  "wrap opn cls offset len t =
     py_slice t None (Some offset) @ opn @
     py_slice t (Some offset) (Some (offset + len)) @ cls @
     py_slice t (Some (offset + len)) None"

text \<open>The body of the \<open>for\<close> loop: one entity applied to the text built so far.\<close>

definition apply_entity :: "pystr \<Rightarrow> entity \<Rightarrow> pystr" where
  "apply_entity formatted_text e =
     (let entity_type = e_type e; offset = get_offset e; len = get_length e in
      if entity_type = Some (str ''bold'') then
        wrap (str ''<b>'') (str ''</b>'') offset len formatted_text
      else if entity_type = Some (str ''italic'') then
        wrap (str ''<i>'') (str ''</i>'') offset len formatted_text
      else if entity_type = Some (str ''underline'') then
        wrap (str ''<u>'') (str ''</u>'') offset len formatted_text
      else if entity_type = Some (str ''strikethrough'') then
        wrap (str ''<s>'') (str ''</s>'') offset len formatted_text
      else if entity_type = Some (str ''code'') then
        wrap (str ''<code>'') (str ''</code>'') offset len formatted_text
      else formatted_text)"

text \<open>
  \<open>sorted(entities, key=offset, reverse=True)\<close>. Python's sort is stable and
  \<open>reverse=True\<close> keeps the original order of entities with equal keys, which is the
  stable ascending sort of the reversed list, reversed.
\<close>

definition sorted_reverse :: "entity list \<Rightarrow> entity list" where
  "sorted_reverse entities = rev (sort_key get_offset (rev entities))"

definition parse_message_entities :: "pystr \<Rightarrow> entity list \<Rightarrow> pystr" where
  "parse_message_entities text entities =
     (if entities = [] then text
      else foldl apply_entity text (sorted_reverse entities))"


text \<open>
  \<open>s.split(sep)\<close> for a one-character separator (never an empty list),
  \<open>s.startswith(p)\<close>, and \<open>str(i)\<close> for an integer.
\<close>

fun py_split :: "nat \<Rightarrow> pystr \<Rightarrow> pystr list" where
  "py_split sep [] = [[]]"
| "py_split sep (c # cs) =
     (if c = sep then [] # py_split sep cs
      else (case py_split sep cs of p # ps \<Rightarrow> (c # p) # ps | [] \<Rightarrow> [[c]]))"

definition startswith :: "pystr \<Rightarrow> pystr \<Rightarrow> bool" where
  "startswith s p = (take (length p) s = p)"

function digits :: "nat \<Rightarrow> pystr" where
  "digits n = (if n < 10 then [48 + n] else digits (n div 10) @ [48 + n mod 10])"
  by pat_completeness auto
termination
  by (relation "measure id") auto

declare digits.simps [simp del]

definition py_str :: "int \<Rightarrow> pystr" where
  "py_str i = (if i < 0 then 45 # digits (nat (- i)) else digits (nat i))"

text \<open>
  \<open>s.strip()\<close> removes the leading and trailing characters for which
  \<open>str.isspace\<close> holds.
\<close>

definition isspace :: "nat \<Rightarrow> bool" where
  "isspace c = (c \<in> set ([9, 10, 11, 12, 13, 28, 29, 30, 31, 32, 133, 160, 5760] @
     [8192 ..< 8203] @ [8232, 8233, 8239, 8287, 12288]))"

definition strip :: "pystr \<Rightarrow> pystr" where
  "strip s = rev (dropWhile isspace (rev (dropWhile isspace s)))"

text \<open>Exceptions of the source that a handler's \<open>try ... except\<close> catches.\<close>

datatype error = TransportError | KeyError | IndexError | FormatError

section \<open>Settings store\<close>

text \<open>
  The table \<open>settings\<close> with primary key \<open>(chat_id, setting_type)\<close>, as the list of
  its rows in insertion order. The storage engine itself is taken to be reliable.
\<close>

record settings_row =
  r_chat_id :: int
  r_setting_type :: pystr
  r_content :: pystr
  r_image_path :: "pystr option"

definition has_key :: "int \<Rightarrow> pystr \<Rightarrow> settings_row \<Rightarrow> bool" where
  "has_key chat_id message_type r = (r_chat_id r = chat_id \<and> r_setting_type r = message_type)"

text \<open>
  \<open>INSERT OR REPLACE\<close>: the rows that conflict on the primary key are deleted, then
  the new row is inserted.
\<close>

definition set_message :: "settings_row list \<Rightarrow> int \<Rightarrow> pystr \<Rightarrow> pystr \<Rightarrow> pystr option \<Rightarrow> settings_row list" where
  "set_message rows chat_id message_type content image_path =
     filter (\<lambda>r. \<not> has_key chat_id message_type r) rows @
     [\<lparr>r_chat_id = chat_id, r_setting_type = message_type,
       r_content = content, r_image_path = image_path\<rparr>]"

text \<open>\<open>SELECT ... fetchone()\<close>, then \<open>result if result else (None, None)\<close>.\<close>

definition get_message :: "settings_row list \<Rightarrow> int \<Rightarrow> pystr \<Rightarrow> pystr option \<times> pystr option" where
  "get_message rows chat_id message_type =
     (case find (has_key chat_id message_type) rows of
        None \<Rightarrow> (None, None)
      | Some r \<Rightarrow> (Some (r_content r), r_image_path r))"

text \<open>\<open>DELETE FROM settings WHERE chat_id = ?\<close>, the statement run on \<open>reset_default\<close>.\<close>

definition delete_settings :: "settings_row list \<Rightarrow> int \<Rightarrow> settings_row list" where
  "delete_settings rows chat_id = filter (\<lambda>r. r_chat_id r \<noteq> chat_id) rows"

text \<open>The primary-key constraint: no two rows share \<open>(chat_id, setting_type)\<close>.\<close>

definition primary_key :: "settings_row list \<Rightarrow> bool" where
  "primary_key rows = distinct (map (\<lambda>r. (r_chat_id r, r_setting_type r)) rows)"

section \<open>Default messages\<close>

definition default_leave :: pystr where
  "default_leave = str ''<b>Awww'' @ [0x2026] @ str '' {username}, you'' @ [39] @ str ''re leaving?</b>'' @ [10, 10] @ str ''Well, it was <i>cute</i> while it lasted. Byeee~ '' @ [0x1f48b, 10, 10] @ str ''I'' @ [39] @ str ''m gonna miss you sooo much~ '' @ [0x1f494] @ str '' <i>(not really)</i>'' @ [10] @ str ''But don'' @ [0x2019] @ str ''t come back crawling and crying afterwards.'' @ [0x1f618]"

definition default_kick :: pystr where
  "default_kick = str ''<b>Oh? {username} got the boot? '' @ [0x1f462] @ str ''</b>'' @ [10, 10] @ str ''Well, well, well... someone couldn'' @ [0x2019] @ str ''t behave~ '' @ [0x1f60f, 10, 10] @ str ''<u>Bye bye~</u>'' @ [10] @ str ''<b>You earned it, b*tch.</b> '' @ [0x1f618, 10] @ str ''<i>Teehee~ '' @ [0x1f48b] @ str ''</i>''"

definition default_ban :: pystr where
  "default_ban = str ''<b>Ooopsie! Thehehe... {username} got banned?!</b> '' @ [0x1f622, 10, 10] @ str ''I'' @ [0x2019] @ str ''m <i>devastated.</i> Truly.'' @ [10] @ str ''Like'' @ [0x2026] @ str '' I'' @ [0x2019] @ str ''m totally gonna cry about it later'' @ [0x2026] @ str '' maybe'' @ [0x2026] @ str '' not. '' @ [0x1f485, 10, 10] @ str ''<i>Well, well... <u>that'' @ [0x2019] @ str ''s what happens when you don'' @ [0x2019] @ str ''t follow the rules~</u></i> '' @ [0x1f624, 10] @ str ''<b>Gonna miss you sooo much'' @ [0x2026] @ str ''</b>'' @ [10] @ str ''<i>Hihi~ '' @ [0x1f48b, 0x1f5a4] @ str ''</i> <b>no.</b> '' @ [0x1f618, 0x1f48b]"

text \<open>The dict of \<open>get_default_messages()\<close>, read with \<open>.get\<close> or \<open>[...]\<close>.\<close>

definition get_default_messages :: "pystr \<Rightarrow> pystr option" where
  "get_default_messages message_type =
     (if message_type = str ''leave'' then Some default_leave
      else if message_type = str ''kick'' then Some default_kick
      else if message_type = str ''ban'' then Some default_ban
      else None)"


section \<open>Messaging gateway\<close>

text \<open>
  What the bot sends is recorded as a list of calls, in order. The fixed notices of the
  source are not spelled out: each constructor of \<open>body\<close> stands for one literal of
  \<open>main.py\<close> and carries the values interpolated into it.
  \<^item> \<open>Text t\<close>: the markup text \<open>t\<close> itself (the farewell message);
  \<^item> \<open>AdminsOnly\<close>: "Only group administrators can access settings.";
  \<^item> \<open>SettingsMenu\<close>: "Farewell Bot Settings ... Choose what you'd like to customize:";
  \<^item> \<open>EditPrompt message_type current_message\<close>: "Edit ... Message ... Current message: ...";
  \<^item> \<open>ImagePrompt message_type\<close>: "Change ... Image ... Send me a photo ...";
  \<^item> \<open>SettingsReset\<close>: "Settings Reset ...";
  \<^item> \<open>MessageUpdated message_type formatted_text\<close>: "... message updated! ... New message: ...";
  \<^item> \<open>ImageUpdated message_type\<close>: "... image updated! ...";
  \<^item> \<open>DownloadFailed\<close>: "Failed to download image. Please try again.";
  \<^item> \<open>NoImageFound\<close>: "No image found. Please send a photo.";
  \<^item> \<open>PhotoNotText\<close>: "Please send a photo, not text.".
\<close>

datatype body =
    Text pystr
  | AdminsOnly
  | SettingsMenu
  | EditPrompt pystr pystr
  | ImagePrompt pystr
  | SettingsReset
  | MessageUpdated pystr pystr
  | ImageUpdated pystr
  | DownloadFailed
  | NoImageFound
  | PhotoNotText

record button =
  b_text :: pystr
  b_callback_data :: pystr

type_synonym keyboard = "button list list"

datatype effect =
    SendMessage int body
  | SendPhoto int pystr pystr
  | SendInlineKeyboard int body keyboard
  | AnswerCallbackQuery "pystr option" pystr
  | EditMessage int "int option" body keyboard

text \<open>
  A call of \<open>requests.get\<close> either raises (no connection, a body that is not JSON) or
  returns a response with a status code and a body. The senders \<open>send_photo\<close>,
  \<open>send_message\<close>, ... catch every exception themselves and return \<open>None\<close> then;
  otherwise they return the JSON reply, of which only the truth of \<open>'ok'\<close> is read.
\<close>

datatype 'a http = Raises | Response nat 'a

record member_reply =
  m_ok :: bool
  m_status :: "pystr option"

record file_reply =
  f_ok :: bool
  f_file_path :: "pystr option"

text \<open>The gateway's answers to the calls made while one update is handled.\<close>

record gateway =
  chat_member_reply :: "member_reply http"
  get_file_reply :: "file_reply http"
  file_content_reply :: "bytes http"
  custom_photo_reply :: "bool option"
  default_photo_reply :: "bool option"

definition acknowledged :: "bool option \<Rightarrow> bool" where
  "acknowledged result = (case result of None \<Rightarrow> False | Some ok \<Rightarrow> ok)"

text \<open>
  \<open>download_file\<close> has no \<open>try\<close> of its own: a transport failure or a reply without
  \<open>file_path\<close> is raised to the caller. \<open>Inr None\<close> is the result \<open>(None, None)\<close>.
\<close>

definition download_file :: "gateway \<Rightarrow> error + (bytes \<times> pystr) option" where
  "download_file gw =
     (case get_file_reply gw of
        Raises \<Rightarrow> Inl TransportError
      | Response status_code file_info \<Rightarrow>
          if status_code = 200 \<and> f_ok file_info then
            (case f_file_path file_info of
               None \<Rightarrow> Inl KeyError
             | Some file_path \<Rightarrow>
                 (case file_content_reply gw of
                    Raises \<Rightarrow> Inl TransportError
                  | Response status_code2 content \<Rightarrow>
                      if status_code2 = 200
                      then Inr (Some (content, last (py_split 47 file_path)))
                      else Inr None))
          else Inr None)"

definition is_chat_admin :: "gateway \<Rightarrow> bool" where
  "is_chat_admin gw =
     (case chat_member_reply gw of
        Raises \<Rightarrow> False
      | Response status_code data \<Rightarrow>
          if status_code = 200 \<and> m_ok data
          then m_status data \<in> set [Some (str ''creator''), Some (str ''administrator'')]
          else False)"

section \<open>Bot state and updates\<close>

record user_state =
  st_action :: pystr
  st_message_type :: pystr
  st_chat_id :: int

text \<open>
  The bot: the settings table, the dict \<open>user_states\<close>, and the local files
  (a path leads to the bytes stored under it).
\<close>

record bot =
  db :: "settings_row list"
  user_states :: "int \<rightharpoonup> user_state"
  files :: "pystr \<rightharpoonup> bytes"

record photo_size =
  p_file_id :: "pystr option"

record message =
  msg_chat_id :: "int option"
  msg_from_id :: "int option"
  msg_message_id :: "int option"
  msg_text :: "pystr option"
  msg_entities :: "entity list option"
  msg_photo :: "photo_size list option"

record callback_query =
  cb_chat_id :: "int option"
  cb_from_id :: "int option"
  cb_message_id :: "int option"
  cb_data :: "pystr option"
  cb_id :: "pystr option"

record tg_user =
  u_username :: "pystr option"
  u_first_name :: "pystr option"
  u_last_name :: "pystr option"

record chat_member_update =
  cm_old_status :: "pystr option"
  cm_old_user :: "tg_user option"
  cm_new_status :: "pystr option"
  cm_until_date :: "int option"
  cm_chat_id :: "int option"

text \<open>\<open>not x\<close> for an id read with \<open>.get\<close>: missing or zero.\<close>

definition missing :: "int option \<Rightarrow> bool" where
  "missing x = (x = None \<or> x = Some 0)"


definition get_id :: "int option \<Rightarrow> int" where
  "get_id x = (case x of None \<Rightarrow> 0 | Some i \<Rightarrow> i)"

text \<open>\<open>x or d\<close> for an optional string \<open>x\<close>: \<open>None\<close> and the empty string are false.\<close>

definition py_or :: "pystr option \<Rightarrow> pystr \<Rightarrow> pystr" where
  "py_or x d = (case x of None \<Rightarrow> d | Some s \<Rightarrow> if s = [] then d else s)"

section \<open>Settings menu\<close>

definition settings_keyboard :: keyboard where
  "settings_keyboard =
     [[\<lparr>b_text = [0x1f4dd] @ str '' Edit Leave Message'', b_callback_data = str ''edit_leave''\<rparr>],
      [\<lparr>b_text = [0x1f462] @ str '' Edit Kick Message'', b_callback_data = str ''edit_kick''\<rparr>],
      [\<lparr>b_text = [0x1f6ab] @ str '' Edit Ban Message'', b_callback_data = str ''edit_ban''\<rparr>],
      [\<lparr>b_text = [0x1f5bc, 0xfe0f] @ str '' Change Leave Image'', b_callback_data = str ''image_leave''\<rparr>],
      [\<lparr>b_text = [0x1f5bc, 0xfe0f] @ str '' Change Kick Image'', b_callback_data = str ''image_kick''\<rparr>],
      [\<lparr>b_text = [0x1f5bc, 0xfe0f] @ str '' Change Ban Image'', b_callback_data = str ''image_ban''\<rparr>],
      [\<lparr>b_text = [0x1f504] @ str '' Reset to Default'', b_callback_data = str ''reset_default''\<rparr>]]"

definition back_keyboard :: keyboard where
  "back_keyboard =
     [[\<lparr>b_text = [0x25c0, 0xfe0f] @ str '' Back to Settings'', b_callback_data = str ''back_to_menu''\<rparr>]]"

text \<open>
  The handlers mutate the bot in place and call the gateway; here each takes the bot
  (the variable \<open>b\<close>) and the gateway's answers and returns the bot afterwards with the
  calls it made.
\<close>

definition handle_settings_command :: "bot \<Rightarrow> gateway \<Rightarrow> int \<Rightarrow> int \<Rightarrow> int option \<Rightarrow> bot \<times> effect list" where
  "handle_settings_command b gw chat_id user_id message_id =
     (if \<not> is_chat_admin gw then (b, [SendMessage chat_id AdminsOnly])
      else (b, [SendInlineKeyboard chat_id SettingsMenu settings_keyboard]))"

definition handle_settings_command_edit :: "bot \<Rightarrow> int \<Rightarrow> int \<Rightarrow> int option \<Rightarrow> bot \<times> effect list" where
  "handle_settings_command_edit b chat_id user_id message_id =
     (b, [EditMessage chat_id message_id SettingsMenu settings_keyboard])"

section \<open>Conversation state\<close>

text \<open>
  The branch \<open>upload_image\<close> of \<open>handle_user_input\<close>, up to the final
  \<open>del bot.user_states[user_id]\<close>. \<open>message['photo'][-1]\<close> raises on an empty list, and
  \<open>download_file\<close> may raise; both before anything is written.
\<close>

definition upload_image :: "bot \<Rightarrow> gateway \<Rightarrow> int \<Rightarrow> user_state \<Rightarrow> message \<Rightarrow> error + bot \<times> effect list" where
  "upload_image b gw chat_id state message =
     (case msg_photo message of
        None \<Rightarrow> Inr (b, [SendMessage chat_id PhotoNotText])
      | Some photos \<Rightarrow>
          if photos = [] then Inl IndexError
          else if p_file_id (last photos) = None \<or> p_file_id (last photos) = Some []
          then Inr (b, [SendMessage chat_id NoImageFound])
          else
            (case download_file gw of
               Inl e \<Rightarrow> Inl e
             | Inr None \<Rightarrow> Inr (b, [SendMessage chat_id DownloadFailed])
             | Inr (Some (file_content, filename)) \<Rightarrow>
                 if file_content = [] then Inr (b, [SendMessage chat_id DownloadFailed])
                 else
                   (let message_type = st_message_type state;
                        image_path = str ''images/'' @ message_type @ str ''_'' @
                                     py_str chat_id @ str ''_'' @ filename;
                        current_message = fst (get_message (db b) chat_id message_type);
                        content = py_or current_message
                                    (case get_default_messages message_type of
                                       None \<Rightarrow> [] | Some d \<Rightarrow> d)
                    in Inr (b\<lparr>files := (files b)(image_path \<mapsto> file_content),
                                 db := set_message (db b) chat_id message_type content
                                         (Some image_path)\<rparr>,
                            [SendInlineKeyboard chat_id (ImageUpdated message_type)
                               back_keyboard]))))"

text \<open>The body of the \<open>try\<close> of \<open>handle_user_input\<close>.\<close>

definition user_input_body :: "bot \<Rightarrow> gateway \<Rightarrow> int \<Rightarrow> int \<Rightarrow> pystr \<Rightarrow> message \<Rightarrow> error + bot \<times> effect list" where
  "user_input_body b gw chat_id user_id text message =
     (case user_states b user_id of
        None \<Rightarrow> Inr (b, [])
      | Some state \<Rightarrow>
          if st_action state = str ''edit_message'' then
            (let entities = (case msg_entities message of None \<Rightarrow> [] | Some es \<Rightarrow> es);
                 formatted_text = parse_message_entities text entities;
                 message_type = st_message_type state
             in Inr (b\<lparr>db := set_message (db b) chat_id message_type formatted_text None,
                          user_states := (user_states b)(user_id := None)\<rparr>,
                     [SendInlineKeyboard chat_id (MessageUpdated message_type formatted_text)
                        back_keyboard]))
          else if st_action state = str ''upload_image'' then
            (case upload_image b gw chat_id state message of
               Inl e \<Rightarrow> Inl e
             | Inr (b', out) \<Rightarrow>
                 Inr (b'\<lparr>user_states := (user_states b')(user_id := None)\<rparr>, out))
          else Inr (b, []))"

text \<open>
  \<open>except Exception\<close> logs and returns: the bot is as it was when the exception was
  raised, which in every raising path above is the bot the handler was called with.
\<close>

definition handle_user_input :: "bot \<Rightarrow> gateway \<Rightarrow> int \<Rightarrow> int \<Rightarrow> pystr \<Rightarrow> message \<Rightarrow> bot \<times> effect list" where
  "handle_user_input b gw chat_id user_id text message =
     (case user_input_body b gw chat_id user_id text message of
        Inl e \<Rightarrow> (b, [])
      | Inr r \<Rightarrow> r)"

definition handle_message :: "bot \<Rightarrow> gateway \<Rightarrow> message option \<Rightarrow> bot \<times> effect list" where
  "handle_message b gw update =
     (case update of
        None \<Rightarrow> (b, [])
      | Some message \<Rightarrow>
          (let chat_id = get_id (msg_chat_id message);
               user_id = get_id (msg_from_id message);
               text = (case msg_text message of None \<Rightarrow> [] | Some t \<Rightarrow> t)
           in if missing (msg_chat_id message) \<or> missing (msg_from_id message) then (b, [])
              else if text = str ''/edit'' \<or> text = str ''/edit@Yukira'' then
                handle_settings_command b gw chat_id user_id (msg_message_id message)
              else if user_states b user_id \<noteq> None then
                handle_user_input b gw chat_id user_id text message
              else (b, [])))"


section \<open>Callbacks of the settings menu\<close>

text \<open>\<open>data.split('_')[1]\<close>; an \<open>IndexError\<close> where the split has a single part.\<close>

definition second_part :: "pystr \<Rightarrow> error + pystr" where
  "second_part data =
     (case py_split 95 data of _ # x # _ \<Rightarrow> Inr x | _ \<Rightarrow> Inl IndexError)"

definition handle_callback_query :: "bot \<Rightarrow> gateway \<Rightarrow> callback_query option \<Rightarrow> bot \<times> effect list" where
  "handle_callback_query b gw update =
     (case update of
        None \<Rightarrow> (b, [])
      | Some callback \<Rightarrow>
          (let chat_id = get_id (cb_chat_id callback);
               user_id = get_id (cb_from_id callback);
               message_id = cb_message_id callback;
               data = (case cb_data callback of None \<Rightarrow> [] | Some d \<Rightarrow> d);
               callback_id = cb_id callback;
               answered = [AnswerCallbackQuery callback_id []]
           in if missing (cb_chat_id callback) \<or> missing (cb_from_id callback) then (b, [])
              else if \<not> is_chat_admin gw then
                (b, answered @
                    [AnswerCallbackQuery callback_id (str ''Only admins can change settings!'')])
              else if startswith data (str ''edit_'') then
                (case second_part data of
                   Inl e \<Rightarrow> (b, answered)
                 | Inr message_type \<Rightarrow>
                     (let current_message =
                            py_or (fst (get_message (db b) chat_id message_type))
                              (case get_default_messages message_type of
                                 None \<Rightarrow> str ''Default message'' | Some d \<Rightarrow> d)
                      in (b\<lparr>user_states := (user_states b)(user_id \<mapsto>
                               \<lparr>st_action = str ''edit_message'',
                                st_message_type = message_type, st_chat_id = chat_id\<rparr>)\<rparr>,
                          answered @
                          [EditMessage chat_id message_id
                             (EditPrompt message_type current_message) back_keyboard])))
              else if startswith data (str ''image_'') then
                (case second_part data of
                   Inl e \<Rightarrow> (b, answered)
                 | Inr message_type \<Rightarrow>
                     (b\<lparr>user_states := (user_states b)(user_id \<mapsto>
                          \<lparr>st_action = str ''upload_image'',
                           st_message_type = message_type, st_chat_id = chat_id\<rparr>)\<rparr>,
                      answered @
                      [EditMessage chat_id message_id (ImagePrompt message_type) back_keyboard]))
              else if data = str ''reset_default'' then
                (b\<lparr>db := delete_settings (db b) chat_id\<rparr>,
                 answered @ [EditMessage chat_id message_id SettingsReset back_keyboard])
              else if data = str ''back_to_menu'' then
                (case handle_settings_command_edit b chat_id user_id message_id of
                   (b', out) \<Rightarrow> (b', answered @ out))
              else (b, answered)))"

section \<open>Membership changes\<close>

text \<open>Lines 561 to 573: the message type chosen from the new status and \<open>until_date\<close>.\<close>

definition message_type_of :: "pystr option \<Rightarrow> int option \<Rightarrow> pystr" where
  "message_type_of status until =
     (if status = Some (str ''left'') then str ''leave''
      else if status = Some (str ''kicked'') then
        (let until_date = (case until of None \<Rightarrow> 0 | Some d \<Rightarrow> d)
         in if until_date = 0 \<or> until_date > 2147483647 then str ''ban'' else str ''kick'')
      else str ''kick'')"

text \<open>
  Lines 544 to 573 of \<open>handle_chat_member_update\<close>: the message type the handler goes
  on with, or \<open>None\<close> where it returns without reacting.
\<close>

definition event_kind :: "chat_member_update \<Rightarrow> pystr option" where
  "event_kind u =
     (if cm_old_status u \<notin> set [Some (str ''member''), Some (str ''administrator''),
                                  Some (str ''creator'')] then None
      else if cm_new_status u \<in> set [Some (str ''left''), Some (str ''kicked''),
                                     Some (str ''banned'')] then
        (if cm_old_user u = None \<or> missing (cm_chat_id u) then None
         else Some (message_type_of (cm_new_status u) (cm_until_date u)))
      else None)"

text \<open>Lines 575 to 582: \<open>@username\<close>, or else the stripped \<open>first_name last_name\<close>.\<close>

definition display_name :: "tg_user \<Rightarrow> pystr" where
  "display_name user =
     (if u_username user \<noteq> None \<and> u_username user \<noteq> Some []
      then str ''@'' @ py_or (u_username user) []
      else strip (py_or (u_first_name user) [] @ str '' '' @ py_or (u_last_name user) []))"

text \<open>
  \<open>template.format(username=username)\<close> is Python's built-in string formatting. On a
  template whose braces are all in \<open>{{\<close>, \<open>}}\<close> or \<open>{username}\<close> it writes one
  brace for a doubled one and the name for the field: \<open>substitute\<close>, which is \<open>None\<close>
  on any other template. What the built-in does there (other field names, conversions,
  format specifications, the exception for a stray brace) is the parameter
  \<open>format_other\<close>.
\<close>

fun substitute :: "pystr \<Rightarrow> pystr \<Rightarrow> pystr option" where
  "substitute [] username = Some []"
| "substitute (c # cs) username =
     (if c = 123 then
        (if take 1 cs = [123] then map_option ((#) 123) (substitute (drop 1 cs) username)
         else if take 9 cs = str ''username}''
         then map_option ((@) username) (substitute (drop 9 cs) username)
         else None)
      else if c = 125 then
        (if take 1 cs = [125] then map_option ((#) 125) (substitute (drop 1 cs) username)
         else None)
      else map_option ((#) c) (substitute cs username))"

definition py_format :: "(pystr \<Rightarrow> pystr \<Rightarrow> error + pystr) \<Rightarrow> pystr \<Rightarrow> pystr \<Rightarrow> error + pystr" where
  "py_format format_other template username =
     (case substitute template username of
        Some message_text \<Rightarrow> Inr message_text
      | None \<Rightarrow> format_other template username)"

text \<open>
  Lines 584 to 589. \<open>get_default_messages()[message_type]\<close> raises \<open>KeyError\<close> for an
  unknown type.
\<close>

definition message_text_of :: "bot \<Rightarrow> (pystr \<Rightarrow> pystr \<Rightarrow> error + pystr) \<Rightarrow> int \<Rightarrow> pystr \<Rightarrow> pystr \<Rightarrow> error + pystr" where
  "message_text_of b format_other chat_id message_type username =
     (let custom_message = fst (get_message (db b) chat_id message_type)
      in if custom_message \<noteq> None \<and> custom_message \<noteq> Some []
         then py_format format_other (py_or custom_message []) username
         else (case get_default_messages message_type of
                 None \<Rightarrow> Inl KeyError
               | Some d \<Rightarrow> py_format format_other d username))"

text \<open>
  Lines 593 to 613: the sends, in order. \<open>os.path.exists\<close> is read from the files of
  the bot; \<open>image_sent\<close> is carried from one attempt to the next.
\<close>

definition deliver :: "bot \<Rightarrow> gateway \<Rightarrow> int \<Rightarrow> pystr option \<Rightarrow> pystr \<Rightarrow> effect list" where
  "deliver b gw chat_id custom_image message_text =
     (let (out1, image_sent1) =
            (case custom_image of
               None \<Rightarrow> ([], False)
             | Some path \<Rightarrow>
                 if path \<noteq> [] \<and> files b path \<noteq> None
                 then ([SendPhoto chat_id path message_text],
                       acknowledged (custom_photo_reply gw))
                 else ([], False));
          default_image = str ''assets/farewell_anime.svg'';
          (out2, image_sent2) =
            (if \<not> image_sent1 then
               (if files b default_image \<noteq> None
                then ([SendPhoto chat_id default_image message_text],
                      acknowledged (default_photo_reply gw))
                else ([], image_sent1))
             else ([], image_sent1));
          out3 = (if \<not> image_sent2 then [SendMessage chat_id (Text message_text)] else [])
      in out1 @ out2 @ out3)"

definition handle_chat_member_update :: "bot \<Rightarrow> gateway \<Rightarrow> (pystr \<Rightarrow> pystr \<Rightarrow> error + pystr) \<Rightarrow> chat_member_update option \<Rightarrow> effect list" where
  "handle_chat_member_update b gw format_other update =
     (case update of
        None \<Rightarrow> []
      | Some u \<Rightarrow>
          (case (event_kind u, cm_old_user u) of
             (Some message_type, Some user) \<Rightarrow>
               (let chat_id = get_id (cm_chat_id u);
                    username = display_name user
                in case message_text_of b format_other chat_id message_type username of
                     Inl e \<Rightarrow> []
                   | Inr message_text \<Rightarrow>
                       deliver b gw chat_id
                         (snd (get_message (db b) chat_id message_type)) message_text)
           | _ \<Rightarrow> []))"


section \<open>What the formatter is to produce\<close>







section \<open>Images of the notifier\<close>

text \<open>
  The custom image of a chat and kind can be sent when a path is stored, is not empty and
  leads to a file (\<open>custom_image and os.path.exists(custom_image)\<close>); the fallback
  image is the one fixed path of the source.
\<close>

definition usable_image :: "bot \<Rightarrow> pystr option \<Rightarrow> bool" where
  "usable_image b image_path =
     (case image_path of None \<Rightarrow> False | Some path \<Rightarrow> path \<noteq> [] \<and> files b path \<noteq> None)"

definition fallback_image :: pystr where
  "fallback_image = str ''assets/farewell_anime.svg''"

section \<open>Sample inputs\<close>

text \<open>
  Concrete values on which the theorems below are evaluated: a table with one row for
  chat 1 and one for chat 2, a user (7) with a pending action for the leave message of
  chat 1, gateways that report a given member status and answer \<open>getFile\<close> in a
  given way, and messages from user 7 in chat 1. \<open>no_format\<close> is a built-in
  formatting that raises on every template outside the fragment \<open>substitute\<close>
  covers, as \<open>str.format\<close> does for a field other than \<open>username\<close>.
\<close>

definition sample_rows :: "settings_row list" where
  "sample_rows =
     [\<lparr>r_chat_id = 1, r_setting_type = str ''leave'', r_content = str ''Bye {username}!'',
       r_image_path = Some (str ''images/leave_1_old.jpg'')\<rparr>,
      \<lparr>r_chat_id = 2, r_setting_type = str ''leave'', r_content = str ''Ciao'',
       r_image_path = None\<rparr>]"

definition pending :: "string \<Rightarrow> user_state" where
  "pending action = \<lparr>st_action = str action, st_message_type = str ''leave'', st_chat_id = 1\<rparr>"

definition bot_with :: "settings_row list \<Rightarrow> (int \<rightharpoonup> user_state) \<Rightarrow> bot" where
  "bot_with rows states = \<lparr>db = rows, user_states = states, files = Map.empty\<rparr>"

definition gateway_with :: "pystr \<Rightarrow> file_reply http \<Rightarrow> gateway" where
  "gateway_with status file_reply =
     \<lparr>chat_member_reply = Response 200 \<lparr>m_ok = True, m_status = Some status\<rparr>,
      get_file_reply = file_reply,
      file_content_reply = Response 200 [255, 216, 255],
      custom_photo_reply = Some False, default_photo_reply = None\<rparr>"

definition file_found :: "file_reply http" where
  "file_found = Response 200 \<lparr>f_ok = True, f_file_path = Some (str ''photos/a.jpg'')\<rparr>"

definition photo_message :: message where
  "photo_message =
     \<lparr>msg_chat_id = Some 1, msg_from_id = Some 7, msg_message_id = Some 5, msg_text = None,
      msg_entities = None,
      msg_photo = Some [\<lparr>p_file_id = Some (str ''small'')\<rparr>, \<lparr>p_file_id = Some (str ''large'')\<rparr>]\<rparr>"

definition text_message :: "string \<Rightarrow> message" where
  "text_message t =
     \<lparr>msg_chat_id = Some 1, msg_from_id = Some 7, msg_message_id = Some 5,
      msg_text = Some (str t), msg_entities = None, msg_photo = None\<rparr>"

definition no_format :: "pystr \<Rightarrow> pystr \<Rightarrow> error + pystr" where
  "no_format template username = Inl FormatError"

definition member_kicked :: "int option \<Rightarrow> chat_member_update" where
  "member_kicked until =
     \<lparr>cm_old_status = Some (str ''member''),
      cm_old_user = Some \<lparr>u_username = Some (str ''bob''), u_first_name = None, u_last_name = None\<rparr>,
      cm_new_status = Some (str ''kicked''), cm_until_date = until, cm_chat_id = Some 1\<rparr>"

definition empty_template_rows :: "settings_row list" where
  "empty_template_rows =
     [\<lparr>r_chat_id = 1, r_setting_type = str ''leave'', r_content = [],
       r_image_path = None\<rparr>]"

definition bad_template_rows :: "settings_row list" where
  "bad_template_rows =
     [\<lparr>r_chat_id = 1, r_setting_type = str ''leave'', r_content = str ''Bye {user}'',
       r_image_path = None\<rparr>]"

definition member_left :: chat_member_update where
  "member_left = (member_kicked None)\<lparr>cm_new_status := Some (str ''left'')\<rparr>"

definition bot_with_images :: bot where
  "bot_with_images =
     (bot_with sample_rows Map.empty)
       \<lparr>files := [str ''images/leave_1_old.jpg'' \<mapsto> [1], fallback_image \<mapsto> [2]]\<rparr>"

text \<open>\<open>new_member.get('until_date', 0)\<close>.\<close>

definition until_of :: "chat_member_update \<Rightarrow> int" where
  "until_of u = (case cm_until_date u of None \<Rightarrow> 0 | Some d \<Rightarrow> d)"

section \<open>The formatter wraps every span\<close>






















section \<open>Settings store: reads after writes\<close>

lemma find_filter_not: "find P (filter (\<lambda>r. \<not> P r) xs) = None"
  by (induction xs) simp_all

lemma find_filter_other: "(\<And>r. Q r \<Longrightarrow> \<not> P r) \<Longrightarrow> find Q (filter (\<lambda>r. \<not> P r) xs) = find Q xs"
  by (induction xs) auto

lemma find_append_case:
  "find P (xs @ ys) = (case find P xs of None \<Rightarrow> find P ys | Some x \<Rightarrow> Some x)"
  by (induction xs) simp_all

lemma get_message_set_message:
  "get_message (set_message rows chat_id message_type content image_path) chat_id message_type
   = (Some content, image_path)"
proof -
  have "find (has_key chat_id message_type)
          (filter (\<lambda>r. \<not> has_key chat_id message_type r) rows) = None"
    by (rule find_filter_not)
  then show ?thesis
    by (simp add: get_message_def set_message_def find_append_case) (simp add: has_key_def)
qed

lemma get_message_set_message_other:
  assumes "chat_id' \<noteq> chat_id \<or> message_type' \<noteq> message_type"
  shows "get_message (set_message rows chat_id message_type content image_path) chat_id' message_type'
   = get_message rows chat_id' message_type'"
proof -
  have "find (has_key chat_id' message_type')
          (filter (\<lambda>r. \<not> has_key chat_id message_type r) rows)
        = find (has_key chat_id' message_type') rows"
    using assms by (intro find_filter_other) (auto simp add: has_key_def)
  moreover have "\<not> has_key chat_id' message_type'
      \<lparr>r_chat_id = chat_id, r_setting_type = message_type,
        r_content = content, r_image_path = image_path\<rparr>"
    using assms by (auto simp add: has_key_def)
  ultimately show ?thesis
    by (simp add: get_message_def set_message_def find_append_case split: option.splits)
qed

lemma get_message_absent:
  "\<not> list_ex (has_key chat_id message_type) rows \<Longrightarrow>
   get_message rows chat_id message_type = (None, None)"
  by (induction rows) (simp_all add: get_message_def)

lemma primary_key_filter: "primary_key rows \<Longrightarrow> primary_key (filter P rows)"
  by (simp add: primary_key_def distinct_map_filter)

lemma primary_key_set_message:
  assumes "primary_key rows"
  shows "primary_key (set_message rows chat_id message_type content image_path)"
proof -
  let ?k = "\<lambda>r. (r_chat_id r, r_setting_type r)"
  let ?f = "filter (\<lambda>r. \<not> has_key chat_id message_type r) rows"
  have "distinct (map ?k ?f)" using assms by (simp add: primary_key_def distinct_map_filter)
  moreover have "(chat_id, message_type) \<notin> set (map ?k ?f)" by (auto simp add: has_key_def)
  ultimately show ?thesis by (simp add: primary_key_def set_message_def)
qed

lemma one_row_set_message:
  "length (filter (has_key chat_id message_type)
     (set_message rows chat_id message_type content image_path)) = 1"
proof -
  have "filter (has_key chat_id message_type)
          (filter (\<lambda>r. \<not> has_key chat_id message_type r) rows) = []"
    by (simp add: filter_empty_conv)
  then show ?thesis by (simp add: set_message_def has_key_def)
qed

lemma get_message_delete_settings:
  "get_message (delete_settings rows chat_id) chat_id message_type = (None, None)"
  by (rule get_message_absent) (auto simp add: delete_settings_def list_ex_iff has_key_def)

lemma get_message_delete_settings_other:
  assumes "chat_id' \<noteq> chat_id"
  shows "get_message (delete_settings rows chat_id) chat_id' message_type
         = get_message rows chat_id' message_type"
proof -
  have "find (has_key chat_id' message_type) (filter (\<lambda>r. \<not> r_chat_id r = chat_id) rows)
        = find (has_key chat_id' message_type) rows"
    using assms by (intro find_filter_other [where P = "\<lambda>r. r_chat_id r = chat_id"])
      (simp add: has_key_def)
  then show ?thesis by (simp add: get_message_def delete_settings_def)
qed


text \<open>
  Claim C7. For every table, chat and kind: after \<open>set_message\<close> without an image,
  \<open>get_message\<close> for the same chat and kind returns the template just written and no
  image; and \<open>get_message\<close> for a chat and kind with no row returns
  \<open>(None, None)\<close>.
\<close>

theorem settings_round_trip:
  "get_message (set_message rows chat kind template None) chat kind = (Some template, None) \<and>
   (\<not> list_ex (has_key chat kind) rows \<longrightarrow> get_message rows chat kind = (None, None))"
  by (simp add: get_message_set_message get_message_absent)

theorem settings_round_trip_witness:
  "get_message (set_message [] 1 (str ''leave'') (str ''X'') None) 1 (str ''leave'')
     = (Some (str ''X''), None) \<and>
   \<not> list_ex (has_key 1 (str ''leave'')) [] \<and> get_message [] 1 (str ''leave'') = (None, None)"
  using settings_round_trip [of "[]" 1 "str ''leave''" "str ''X''"] by simp

section \<open>Reset to default\<close>

lemma handle_callback_query_reset:
  assumes "cb_chat_id cb = Some chat" "chat \<noteq> 0" "cb_from_id cb = Some user" "user \<noteq> 0"
    "is_chat_admin gw" "cb_data cb = Some (str ''reset_default'')"
  shows "handle_callback_query b gw (Some cb) =
     (b\<lparr>db := delete_settings (db b) chat\<rparr>,
      [AnswerCallbackQuery (cb_id cb) [],
       EditMessage chat (cb_message_id cb) SettingsReset back_keyboard])"
proof -
  have "\<not> startswith (str ''reset_default'') (str ''edit_'')"
       "\<not> startswith (str ''reset_default'') (str ''image_'')"
    by (simp_all add: startswith_def str_def)
  then show ?thesis using assms
    by (simp add: handle_callback_query_def missing_def get_id_def Let_def)
qed

text \<open>
  Claim C8. When an administrator presses reset-to-default in a chat, the table afterwards
  holds no row of that chat, so \<open>get_message\<close> returns \<open>(None, None)\<close> for every
  kind of that chat, and the rows and lookups of every other chat are as before.
\<close>

theorem reset_deletes_chat_rows:
  assumes "cb_chat_id cb = Some chat" "chat \<noteq> 0" "cb_from_id cb = Some user" "user \<noteq> 0"
    "is_chat_admin gw" "cb_data cb = Some (str ''reset_default'')"
  shows "get_message (db (fst (handle_callback_query b gw (Some cb)))) chat kind = (None, None) \<and>
    filter (\<lambda>r. r_chat_id r = chat) (db (fst (handle_callback_query b gw (Some cb)))) = [] \<and>
    filter (\<lambda>r. r_chat_id r \<noteq> chat) (db (fst (handle_callback_query b gw (Some cb))))
      = filter (\<lambda>r. r_chat_id r \<noteq> chat) (db b) \<and>
    (chat' \<noteq> chat \<longrightarrow>
       get_message (db (fst (handle_callback_query b gw (Some cb)))) chat' kind
         = get_message (db b) chat' kind)"
proof -
  have db: "db (fst (handle_callback_query b gw (Some cb))) = delete_settings (db b) chat"
    by (simp add: handle_callback_query_reset [OF assms])
  show ?thesis unfolding db
    by (simp add: get_message_delete_settings get_message_delete_settings_other)
       (simp add: delete_settings_def)
qed

theorem reset_deletes_chat_rows_witness:
  "is_chat_admin (gateway_with (str ''administrator'') Raises) \<and>
   get_message sample_rows 1 (str ''leave'')
     = (Some (str ''Bye {username}!''), Some (str ''images/leave_1_old.jpg'')) \<and>
   get_message (db (fst (handle_callback_query (bot_with sample_rows Map.empty)
      (gateway_with (str ''administrator'') Raises)
      (Some \<lparr>cb_chat_id = Some 1, cb_from_id = Some 7, cb_message_id = Some 3,
             cb_data = Some (str ''reset_default''), cb_id = Some (str ''q'')\<rparr>)))) 1 (str ''leave'')
     = (None, None) \<and>
   get_message (db (fst (handle_callback_query (bot_with sample_rows Map.empty)
      (gateway_with (str ''administrator'') Raises)
      (Some \<lparr>cb_chat_id = Some 1, cb_from_id = Some 7, cb_message_id = Some 3,
             cb_data = Some (str ''reset_default''), cb_id = Some (str ''q'')\<rparr>)))) 2 (str ''leave'')
     = (Some (str ''Ciao''), None)"
proof -
  let ?cb = "\<lparr>cb_chat_id = Some 1, cb_from_id = Some 7, cb_message_id = Some 3,
             cb_data = Some (str ''reset_default''), cb_id = Some (str ''q'')\<rparr>"
  let ?gw = "gateway_with (str ''administrator'') Raises"
  have adm: "is_chat_admin ?gw" by (simp add: is_chat_admin_def gateway_with_def)
  have g1: "get_message sample_rows 1 (str ''leave'')
     = (Some (str ''Bye {username}!''), Some (str ''images/leave_1_old.jpg''))"
    by (simp add: get_message_def sample_rows_def has_key_def)
  have g2: "get_message (db (bot_with sample_rows Map.empty)) 2 (str ''leave'')
     = (Some (str ''Ciao''), None)"
    by (simp add: get_message_def sample_rows_def bot_with_def has_key_def)
  show ?thesis
    using reset_deletes_chat_rows [of ?cb 1 7 ?gw "bot_with sample_rows Map.empty"
        "str ''leave''" 2] adm g1 g2
    by simp
qed

section \<open>Classifying a membership change\<close>

lemma status_literals:
  "str ''left'' \<noteq> str ''kicked''" "str ''left'' \<noteq> str ''banned''"
  "str ''kicked'' \<noteq> str ''banned''" "str ''kicked'' \<noteq> str ''left''"
  by (simp_all add: str_def)

lemma handle_chat_member_update_silent:
  "event_kind u = None \<Longrightarrow> handle_chat_member_update b gw format_other (Some u) = []"
  by (simp add: handle_chat_member_update_def)

text \<open>
  Claim C1. The handler sends nothing unless it reaches a message type, and it reaches one
  only if the old status is member, administrator or creator (and the new status is left,
  kicked or banned, and the user and chat are present). Then the type is leave for left;
  for kicked it is ban if \<open>until_date\<close> is 0 or greater than 2147483647 and kick
  otherwise; and kick for the remaining status.
\<close>

theorem event_kind_classifies:
  "(handle_chat_member_update b gw format_other (Some u) \<noteq> [] \<longrightarrow> event_kind u \<noteq> None) \<and>
   (event_kind u \<noteq> None \<longrightarrow>
      cm_old_status u \<in> {Some (str ''member''), Some (str ''administrator''), Some (str ''creator'')}) \<and>
   (event_kind u \<noteq> None \<and> cm_new_status u = Some (str ''left'') \<longrightarrow>
      event_kind u = Some (str ''leave'')) \<and>
   (event_kind u \<noteq> None \<and> cm_new_status u = Some (str ''kicked'') \<longrightarrow>
      event_kind u = Some (if until_of u = 0 \<or> until_of u > 2147483647
                           then str ''ban'' else str ''kick'')) \<and>
   (event_kind u \<noteq> None \<and> cm_new_status u \<noteq> Some (str ''left'') \<and>
    cm_new_status u \<noteq> Some (str ''kicked'') \<longrightarrow> event_kind u = Some (str ''kick'')) \<and>
   (event_kind u \<noteq> None \<longleftrightarrow>
      cm_old_status u \<in> {Some (str ''member''), Some (str ''administrator''), Some (str ''creator'')} \<and>
      cm_new_status u \<in> {Some (str ''left''), Some (str ''kicked''), Some (str ''banned'')} \<and>
      cm_old_user u \<noteq> None \<and> \<not> missing (cm_chat_id u))"
proof -
  have silent: "handle_chat_member_update b gw format_other (Some u) \<noteq> [] \<longrightarrow> event_kind u \<noteq> None"
    using handle_chat_member_update_silent [of u b gw format_other] by blast
  have rest: "(event_kind u \<noteq> None \<longrightarrow>
      cm_old_status u \<in> {Some (str ''member''), Some (str ''administrator''), Some (str ''creator'')}) \<and>
   (event_kind u \<noteq> None \<and> cm_new_status u = Some (str ''left'') \<longrightarrow>
      event_kind u = Some (str ''leave'')) \<and>
   (event_kind u \<noteq> None \<and> cm_new_status u = Some (str ''kicked'') \<longrightarrow>
      event_kind u = Some (if until_of u = 0 \<or> until_of u > 2147483647
                           then str ''ban'' else str ''kick'')) \<and>
   (event_kind u \<noteq> None \<and> cm_new_status u \<noteq> Some (str ''left'') \<and>
    cm_new_status u \<noteq> Some (str ''kicked'') \<longrightarrow> event_kind u = Some (str ''kick'')) \<and>
   (event_kind u \<noteq> None \<longleftrightarrow>
      cm_old_status u \<in> {Some (str ''member''), Some (str ''administrator''), Some (str ''creator'')} \<and>
      cm_new_status u \<in> {Some (str ''left''), Some (str ''kicked''), Some (str ''banned'')} \<and>
      cm_old_user u \<noteq> None \<and> \<not> missing (cm_chat_id u))"
    by (auto simp add: event_kind_def message_type_of_def until_of_def Let_def status_literals
        split: if_splits)
  from silent rest show ?thesis by blast
qed

theorem event_kind_classifies_witness:
  "event_kind (member_kicked (Some 2147483648)) \<noteq> None \<and>
   cm_new_status (member_kicked (Some 2147483648)) = Some (str ''kicked'') \<and>
   event_kind (member_kicked (Some 2147483648)) = Some (str ''ban'') \<and>
   event_kind (member_kicked (Some 1700000000)) = Some (str ''kick'')"
  using event_kind_classifies [of "bot_with sample_rows Map.empty"
      "gateway_with (str ''member'') Raises" no_format "member_kicked (Some 2147483648)"]
    event_kind_classifies [of "bot_with sample_rows Map.empty"
      "gateway_with (str ''member'') Raises" no_format "member_kicked (Some 1700000000)"]
  by (simp add: member_kicked_def until_of_def missing_def str_def)

lemma event_kind_examples:
  "event_kind ((member_kicked None)\<lparr>cm_new_status := Some (str ''left'')\<rparr>) = Some (str ''leave'')"
  "event_kind (member_kicked (Some 0)) = Some (str ''ban'')"
  "event_kind (member_kicked None) = Some (str ''ban'')"
  "event_kind (member_kicked (Some 2147483647)) = Some (str ''kick'')"
  "event_kind ((member_kicked None)\<lparr>cm_new_status := Some (str ''banned'')\<rparr>) = Some (str ''kick'')"
  "event_kind ((member_kicked (Some 0))\<lparr>cm_old_status := Some (str ''left'')\<rparr>) = None"
  "event_kind ((member_kicked (Some 0))\<lparr>cm_new_status := Some (str ''restricted'')\<rparr>) = None"
  by (simp_all add: event_kind_def message_type_of_def member_kicked_def missing_def str_def)

section \<open>Opening the settings menu\<close>

lemma is_chat_admin_iff:
  "is_chat_admin gw \<longleftrightarrow>
     (\<exists>data. chat_member_reply gw = Response 200 data \<and> m_ok data \<and>
        (m_status data = Some (str ''creator'') \<or> m_status data = Some (str ''administrator'')))"
  by (cases "chat_member_reply gw") (auto simp add: is_chat_admin_def)

text \<open>
  Claim C9. On the settings command (either spelling) the check passes exactly when the
  gateway's member lookup answers with status creator or administrator. If it passes,
  the menu is sent with the seven actions edit_leave, edit_kick, edit_ban, image_leave,
  image_kick, image_ban and reset_default; if not, only the denial notice is sent. In both
  cases the bot, and so the conversation state, is unchanged.
\<close>

theorem settings_command_authorization:
  assumes "msg_chat_id m = Some chat" "chat \<noteq> 0" "msg_from_id m = Some user" "user \<noteq> 0"
    "msg_text m = Some (str ''/edit'') \<or> msg_text m = Some (str ''/edit@Yukira'')"
  shows
   "(is_chat_admin gw \<longleftrightarrow>
       (\<exists>data. chat_member_reply gw = Response 200 data \<and> m_ok data \<and>
          (m_status data = Some (str ''creator'') \<or> m_status data = Some (str ''administrator'')))) \<and>
    (is_chat_admin gw \<longrightarrow>
       handle_message b gw (Some m) = (b, [SendInlineKeyboard chat SettingsMenu settings_keyboard])) \<and>
    (\<not> is_chat_admin gw \<longrightarrow>
       handle_message b gw (Some m) = (b, [SendMessage chat AdminsOnly])) \<and>
    map b_callback_data (concat settings_keyboard) =
      [str ''edit_leave'', str ''edit_kick'', str ''edit_ban'',
       str ''image_leave'', str ''image_kick'', str ''image_ban'', str ''reset_default'']"
proof -
  have kb: "map b_callback_data (concat settings_keyboard) =
      [str ''edit_leave'', str ''edit_kick'', str ''edit_ban'',
       str ''image_leave'', str ''image_kick'', str ''image_ban'', str ''reset_default'']"
    by (simp add: settings_keyboard_def)
  have hm: "handle_message b gw (Some m) =
      handle_settings_command b gw chat user (msg_message_id m)"
    using assms by (auto simp add: handle_message_def missing_def get_id_def Let_def)
  show ?thesis
    using is_chat_admin_iff [of gw] kb by (simp add: hm handle_settings_command_def)
qed

theorem settings_command_authorization_witness:
  "is_chat_admin (gateway_with (str ''administrator'') Raises) \<and>
   handle_message (bot_with sample_rows Map.empty) (gateway_with (str ''administrator'') Raises)
     (Some (text_message ''/edit''))
     = (bot_with sample_rows Map.empty, [SendInlineKeyboard 1 SettingsMenu settings_keyboard]) \<and>
   length (concat settings_keyboard) = 7 \<and>
   \<not> is_chat_admin (gateway_with (str ''member'') Raises) \<and>
   handle_message (bot_with sample_rows Map.empty) (gateway_with (str ''member'') Raises)
     (Some (text_message ''/edit''))
     = (bot_with sample_rows Map.empty, [SendMessage 1 AdminsOnly])"
proof -
  have m: "msg_chat_id (text_message ''/edit'') = Some 1"
    "msg_from_id (text_message ''/edit'') = Some 7"
    "msg_text (text_message ''/edit'') = Some (str ''/edit'') \<or>
     msg_text (text_message ''/edit'') = Some (str ''/edit@Yukira'')"
    by (simp_all add: text_message_def)
  have adm: "is_chat_admin (gateway_with (str ''administrator'') Raises)"
    by (simp add: is_chat_admin_def gateway_with_def)
  have mem: "\<not> is_chat_admin (gateway_with (str ''member'') Raises)"
    by (simp add: is_chat_admin_def gateway_with_def str_def)
  have len: "length (concat settings_keyboard) = 7" by (simp add: settings_keyboard_def)
  show ?thesis
    using settings_command_authorization [OF m(1) _ m(2) _ m(3), of "gateway_with (str ''administrator'') Raises"
                 "bot_with sample_rows Map.empty"]
      settings_command_authorization [OF m(1) _ m(2) _ m(3), of "gateway_with (str ''member'') Raises"
                 "bot_with sample_rows Map.empty"] adm mem len
    by simp
qed

section \<open>Consuming a template edit\<close>

lemma handle_user_input_edit:
  assumes "user_states b user = Some st" "st_action st = str ''edit_message''"
  shows "handle_user_input b gw chat user text m =
     (b\<lparr>db := set_message (db b) chat (st_message_type st)
               (parse_message_entities text (case msg_entities m of None \<Rightarrow> [] | Some es \<Rightarrow> es)) None,
        user_states := (user_states b)(user := None)\<rparr>,
      [SendInlineKeyboard chat
         (MessageUpdated (st_message_type st)
            (parse_message_entities text (case msg_entities m of None \<Rightarrow> [] | Some es \<Rightarrow> es)))
         back_keyboard])"
  using assms by (simp add: handle_user_input_def user_input_body_def Let_def)

lemma action_literals: "str ''upload_image'' \<noteq> str ''edit_message''"
  by (simp add: str_def)

lemma upload_image_db:
  "upload_image b gw chat st m = Inr (b', out) \<Longrightarrow> primary_key (db b) \<Longrightarrow> primary_key (db b')"
  by (auto simp add: upload_image_def Let_def primary_key_set_message
      split: option.splits if_splits sum.splits prod.splits)

lemma primary_key_handle_user_input:
  "primary_key (db b) \<Longrightarrow> primary_key (db (fst (handle_user_input b gw chat user text m)))"
  by (auto simp add: handle_user_input_def user_input_body_def Let_def primary_key_set_message
      dest: upload_image_db split: option.splits if_splits sum.splits prod.splits)

lemma primary_key_handle_message:
  "primary_key (db b) \<Longrightarrow> primary_key (db (fst (handle_message b gw update)))"
  by (auto simp add: handle_message_def handle_settings_command_def Let_def
      primary_key_handle_user_input split: option.splits)

lemma primary_key_handle_callback_query:
  "primary_key (db b) \<Longrightarrow> primary_key (db (fst (handle_callback_query b gw update)))"
  by (auto simp add: handle_callback_query_def handle_settings_command_edit_def Let_def
      delete_settings_def primary_key_filter split: option.splits sum.splits)

text \<open>
  Claim C5. For every table, when the input of a user waiting for a text is consumed,
  \<open>get_message\<close> for the chat of the message and the kind of the pending action
  returns the formatted new template and no image, whatever was stored before; the table
  then holds exactly one row for that chat and kind; and a table without two rows for one
  chat and kind has none after this or any other message or callback.
\<close>

theorem template_edit_replaces_row:
  assumes "user_states b user = Some st" "st_action st = str ''edit_message''"
  shows
   "get_message (db (fst (handle_user_input b gw chat user text m))) chat (st_message_type st)
      = (Some (parse_message_entities text
                 (case msg_entities m of None \<Rightarrow> [] | Some es \<Rightarrow> es)), None) \<and>
    length (filter (has_key chat (st_message_type st))
              (db (fst (handle_user_input b gw chat user text m)))) = 1 \<and>
    (primary_key (db b) \<longrightarrow>
       primary_key (db (fst (handle_user_input b gw chat user text m))) \<and>
       primary_key (db (fst (handle_message b gw' update))) \<and>
       primary_key (db (fst (handle_callback_query b gw' callback))))"
  by (simp add: handle_user_input_edit [OF assms] get_message_set_message one_row_set_message
      primary_key_set_message primary_key_handle_message primary_key_handle_callback_query)

theorem template_edit_replaces_row_witness:
  "user_states (bot_with sample_rows [7 \<mapsto> pending ''edit_message'']) 7
     = Some (pending ''edit_message'') \<and>
   st_action (pending ''edit_message'') = str ''edit_message'' \<and>
   get_message sample_rows 1 (str ''leave'')
     = (Some (str ''Bye {username}!''), Some (str ''images/leave_1_old.jpg'')) \<and>
   primary_key sample_rows \<and>
   get_message (db (fst (handle_user_input (bot_with sample_rows [7 \<mapsto> pending ''edit_message''])
       (gateway_with (str ''member'') Raises) 1 7 (str ''hello'') (text_message ''hello''))))
     1 (str ''leave'') = (Some (str ''hello''), None) \<and>
   primary_key (db (fst (handle_user_input (bot_with sample_rows [7 \<mapsto> pending ''edit_message''])
       (gateway_with (str ''member'') Raises) 1 7 (str ''hello'') (text_message ''hello''))))"
proof -
  let ?b = "bot_with sample_rows [7 \<mapsto> pending ''edit_message'']"
  have s: "user_states ?b 7 = Some (pending ''edit_message'')" by (simp add: bot_with_def)
  have a: "st_action (pending ''edit_message'') = str ''edit_message''" by (simp add: pending_def)
  have g: "get_message sample_rows 1 (str ''leave'')
     = (Some (str ''Bye {username}!''), Some (str ''images/leave_1_old.jpg''))"
    by (simp add: get_message_def sample_rows_def has_key_def)
  have k: "primary_key sample_rows" by (simp add: primary_key_def sample_rows_def)
  have p: "parse_message_entities (str ''hello'')
             (case msg_entities (text_message ''hello'') of None \<Rightarrow> [] | Some es \<Rightarrow> es)
           = str ''hello''"
    by (simp add: parse_message_entities_def text_message_def)
  have d: "db ?b = sample_rows" "st_message_type (pending ''edit_message'') = str ''leave''"
    by (simp_all add: bot_with_def pending_def)
  show ?thesis
    using template_edit_replaces_row [OF s a, of "gateway_with (str ''member'') Raises" 1 "str ''hello''"
        "text_message ''hello''"] s a g k
    by (simp add: p d)
qed

text \<open>
  Claim C10. When a user waiting for a text sends a message without a text field (and so
  without entities), the empty string is stored as the template of that chat and kind, with
  no image; the confirmation is sent and the pending state is cleared.
\<close>

theorem missing_text_stores_empty_template:
  assumes "msg_chat_id m = Some chat" "chat \<noteq> 0" "msg_from_id m = Some user" "user \<noteq> 0"
    "msg_text m = None" "msg_entities m = None \<or> msg_entities m = Some []"
    "user_states b user = Some st" "st_action st = str ''edit_message''"
  shows
   "get_message (db (fst (handle_message b gw (Some m)))) chat (st_message_type st)
      = (Some [], None) \<and>
    user_states (fst (handle_message b gw (Some m))) user = None \<and>
    snd (handle_message b gw (Some m)) =
      [SendInlineKeyboard chat (MessageUpdated (st_message_type st) []) back_keyboard]"
proof -
  have no_cmd: "[] \<noteq> str ''/edit''" "[] \<noteq> str ''/edit@Yukira''" by (simp_all add: str_def)
  have hm: "handle_message b gw (Some m) = handle_user_input b gw chat user [] m"
    using assms no_cmd by (simp add: handle_message_def missing_def get_id_def Let_def)
  have ft: "parse_message_entities [] (case msg_entities m of None \<Rightarrow> [] | Some es \<Rightarrow> es) = []"
    using assms(6) by (auto simp add: parse_message_entities_def)
  show ?thesis
    by (simp add: hm handle_user_input_edit [OF assms(7,8)] ft get_message_set_message)
qed

theorem missing_text_stores_empty_template_witness:
  "user_states (bot_with sample_rows [7 \<mapsto> pending ''edit_message'']) 7
     = Some (pending ''edit_message'') \<and>
   msg_text photo_message = None \<and>
   get_message (db (fst (handle_message (bot_with sample_rows [7 \<mapsto> pending ''edit_message''])
       (gateway_with (str ''member'') Raises) (Some photo_message)))) 1 (str ''leave'')
     = (Some [], None) \<and>
   user_states (fst (handle_message (bot_with sample_rows [7 \<mapsto> pending ''edit_message''])
       (gateway_with (str ''member'') Raises) (Some photo_message))) 7 = None"
proof -
  let ?b = "bot_with sample_rows [7 \<mapsto> pending ''edit_message'']"
  have s: "user_states ?b 7 = Some (pending ''edit_message'')" by (simp add: bot_with_def)
  have a: "st_action (pending ''edit_message'') = str ''edit_message''" by (simp add: pending_def)
  have m: "msg_chat_id photo_message = Some 1" "msg_from_id photo_message = Some 7"
    "msg_text photo_message = None"
    "msg_entities photo_message = None \<or> msg_entities photo_message = Some []"
    by (simp_all add: photo_message_def)
  have t: "st_message_type (pending ''edit_message'') = str ''leave''" by (simp add: pending_def)
  show ?thesis
    using missing_text_stores_empty_template [OF m(1) _ m(2) _ m(3) m(4) s a, of "gateway_with (str ''member'') Raises"] s m(3)
    by (simp add: t)
qed

section \<open>Clearing the pending state\<close>

lemma download_file_found:
  "download_file (gateway_with s file_found) = Inr (Some ([255, 216, 255], str ''a.jpg''))"
  by (simp add: download_file_def gateway_with_def file_found_def str_def)

lemma download_file_raises:
  "download_file (gateway_with s Raises) = Inl TransportError"
  by (simp add: download_file_def gateway_with_def)

lemma handle_user_input_no_state:
  "user_states b user = None \<Longrightarrow> handle_user_input b gw chat user text m = (b, [])"
  by (simp add: handle_user_input_def user_input_body_def)

lemma upload_image_states:
  "upload_image b gw chat st m = Inr (b', out) \<Longrightarrow> user_states b' = user_states b"
  by (auto simp add: upload_image_def Let_def
      split: option.splits if_splits sum.splits prod.splits)

lemma handle_user_input_clears:
  assumes "user_states b user = Some st"
    "st_action st = str ''edit_message'' \<or> st_action st = str ''upload_image''"
    "user_input_body b gw chat user text m = Inr r"
  shows "user_states (fst (handle_user_input b gw chat user text m)) user = None"
  using assms
  by (auto simp add: handle_user_input_def user_input_body_def Let_def
      split: if_splits sum.splits prod.splits)

text \<open>
  Claim C2. Consuming an input clears the pending state wherever the handler runs to its
  end (\<open>handle_user_input_clears\<close>), and an input without pending state changes
  nothing (\<open>handle_user_input_no_state\<close>). But where \<open>download_file\<close> raises, the
  handler's \<open>except\<close> is reached before the state is deleted: for user 7 waiting for a
  photo, a photo message arriving while the gateway cannot be reached leaves the bot as it
  was, the pending state included.
\<close>

theorem pending_state_survives_failed_download:
  "user_states (bot_with sample_rows [7 \<mapsto> pending ''upload_image'']) 7
     = Some (pending ''upload_image'') \<and>
   download_file (gateway_with (str ''administrator'') Raises) = Inl TransportError \<and>
   handle_message (bot_with sample_rows [7 \<mapsto> pending ''upload_image''])
     (gateway_with (str ''administrator'') Raises) (Some photo_message)
     = (bot_with sample_rows [7 \<mapsto> pending ''upload_image''], []) \<and>
   user_states (fst (handle_message (bot_with sample_rows [7 \<mapsto> pending ''upload_image''])
     (gateway_with (str ''administrator'') Raises) (Some photo_message))) 7
     = Some (pending ''upload_image'')"
proof -
  let ?b = "bot_with sample_rows [7 \<mapsto> pending ''upload_image'']"
  let ?gw = "gateway_with (str ''administrator'') Raises"
  have s: "user_states ?b 7 = Some (pending ''upload_image'')" by (simp add: bot_with_def)
  have no_cmd: "[] \<noteq> str ''/edit''" "[] \<noteq> str ''/edit@Yukira''" by (simp_all add: str_def)
  have up: "upload_image ?b ?gw 1 (pending ''upload_image'') photo_message = Inl TransportError"
    by (simp add: upload_image_def photo_message_def download_file_raises str_def)
  have body: "user_input_body ?b ?gw 1 7 [] photo_message = Inl TransportError"
    by (simp add: user_input_body_def s up) (simp add: pending_def action_literals)
  have hui: "handle_user_input ?b ?gw 1 7 [] photo_message = (?b, [])"
    by (simp add: handle_user_input_def body)
  have m: "msg_chat_id photo_message = Some 1" "msg_from_id photo_message = Some 7"
    "msg_text photo_message = None"
    by (simp_all add: photo_message_def)
  have hm: "handle_message ?b ?gw (Some photo_message) = (?b, [])"
    using no_cmd by (simp add: handle_message_def Let_def missing_def get_id_def m s hui)
  show ?thesis by (simp add: hm s download_file_raises)
qed

section \<open>Consuming a photo\<close>

lemma handle_user_input_upload:
  assumes "user_states b user = Some st" "st_action st = str ''upload_image''"
    "msg_photo m = Some photos" "photos \<noteq> []"
    "p_file_id (last photos) = Some file_id" "file_id \<noteq> []"
    "download_file gw = Inr (Some (content, filename))" "content \<noteq> []"
  shows "handle_user_input b gw chat user text m =
     (b\<lparr>files := (files b)(str ''images/'' @ st_message_type st @ str ''_'' @
                               py_str chat @ str ''_'' @ filename \<mapsto> content),
        db := set_message (db b) chat (st_message_type st)
                (py_or (fst (get_message (db b) chat (st_message_type st)))
                   (case get_default_messages (st_message_type st) of
                      None \<Rightarrow> [] | Some d \<Rightarrow> d))
                (Some (str ''images/'' @ st_message_type st @ str ''_'' @
                       py_str chat @ str ''_'' @ filename)),
        user_states := (user_states b)(user := None)\<rparr>,
      [SendInlineKeyboard chat (ImageUpdated (st_message_type st)) back_keyboard])"
proof -
  have up: "upload_image b gw chat st m =
     Inr (b\<lparr>files := (files b)(str ''images/'' @ st_message_type st @ str ''_'' @
                               py_str chat @ str ''_'' @ filename \<mapsto> content),
        db := set_message (db b) chat (st_message_type st)
                (py_or (fst (get_message (db b) chat (st_message_type st)))
                   (case get_default_messages (st_message_type st) of
                      None \<Rightarrow> [] | Some d \<Rightarrow> d))
                (Some (str ''images/'' @ st_message_type st @ str ''_'' @
                       py_str chat @ str ''_'' @ filename))\<rparr>,
      [SendInlineKeyboard chat (ImageUpdated (st_message_type st)) back_keyboard])"
    using assms(3-8) by (simp add: upload_image_def Let_def)
  show ?thesis
    using assms(1,2) by (simp add: handle_user_input_def user_input_body_def up action_literals)
qed

lemma py_str_1: "py_str 1 = str ''1''"
  by (simp add: py_str_def digits.simps str_def)

lemma default_leave_not_empty: "default_leave \<noteq> []"
  by (simp add: default_leave_def str_def)

text \<open>
  Claim C6, as stated, fails where the stored template is the empty string (which a
  message without text leaves behind, see above): \<open>current_message or default\<close> takes
  the default then, so after the upload \<open>get_message\<close> returns the default leave
  template, not the stored one.
\<close>

theorem photo_upload_replaces_empty_template:
  "fst (get_message (db (bot_with empty_template_rows [7 \<mapsto> pending ''upload_image'']))
          1 (str ''leave'')) = Some [] \<and>
   download_file (gateway_with (str ''administrator'') file_found)
     = Inr (Some ([255, 216, 255], str ''a.jpg'')) \<and>
   get_message
     (db (fst (handle_user_input (bot_with empty_template_rows [7 \<mapsto> pending ''upload_image''])
                 (gateway_with (str ''administrator'') file_found) 1 7 [] photo_message)))
     1 (str ''leave'')
     = (Some default_leave, Some (str ''images/leave_1_a.jpg'')) \<and>
   default_leave \<noteq> []"
proof -
  let ?b = "bot_with empty_template_rows [7 \<mapsto> pending ''upload_image'']"
  let ?gw = "gateway_with (str ''administrator'') file_found"
  have s: "user_states ?b 7 = Some (pending ''upload_image'')" by (simp add: bot_with_def)
  have a: "st_action (pending ''upload_image'') = str ''upload_image''"
    by (simp add: pending_def)
  have ph: "msg_photo photo_message
              = Some [\<lparr>p_file_id = Some (str ''small'')\<rparr>, \<lparr>p_file_id = Some (str ''large'')\<rparr>]"
    by (simp add: photo_message_def)
  have g: "get_message (db ?b) 1 (str ''leave'') = (Some [], None)"
    by (simp add: get_message_def bot_with_def empty_template_rows_def has_key_def)
  have k: "st_message_type (pending ''upload_image'') = str ''leave''" by (simp add: pending_def)
  have dfl: "get_default_messages (str ''leave'') = Some default_leave"
    by (simp add: get_default_messages_def)
  have p: "str ''images/'' @ str ''leave'' @ str ''_'' @ py_str 1 @ str ''_'' @ str ''a.jpg''
           = str ''images/leave_1_a.jpg''"
    by (simp add: py_str_1) (simp add: str_def)
  have h: "handle_user_input ?b ?gw 1 7 [] photo_message = 
     (?b\<lparr>files := (files ?b)(str ''images/leave_1_a.jpg'' \<mapsto> [255, 216, 255]),
        db := set_message (db ?b) 1 (str ''leave'') default_leave
                (Some (str ''images/leave_1_a.jpg'')),
        user_states := (user_states ?b)(7 := None)\<rparr>,
      [SendInlineKeyboard 1 (ImageUpdated (str ''leave'')) back_keyboard])"
  proof -
    have fid: "p_file_id (last [\<lparr>p_file_id = Some (str ''small'')\<rparr>,
                 \<lparr>p_file_id = Some (str ''large'')\<rparr>]) = Some (str ''large'')"
      by simp
    have ne: "str ''large'' \<noteq> []" by (simp add: str_def)
    have "handle_user_input ?b ?gw 1 7 [] photo_message =
       (?b\<lparr>files := (files ?b)(str ''images/'' @ st_message_type (pending ''upload_image'') @
                    str ''_'' @ py_str 1 @ str ''_'' @ str ''a.jpg'' \<mapsto> [255, 216, 255]),
          db := set_message (db ?b) 1 (st_message_type (pending ''upload_image''))
                  (py_or (fst (get_message (db ?b) 1 (st_message_type (pending ''upload_image''))))
                     (case get_default_messages (st_message_type (pending ''upload_image'')) of
                        None \<Rightarrow> [] | Some d \<Rightarrow> d))
                  (Some (str ''images/'' @ st_message_type (pending ''upload_image'') @
                         str ''_'' @ py_str 1 @ str ''_'' @ str ''a.jpg'')),
          user_states := (user_states ?b)(7 := None)\<rparr>,
        [SendInlineKeyboard 1 (ImageUpdated (st_message_type (pending ''upload_image'')))
           back_keyboard])"
      by (rule handle_user_input_upload [OF s a ph _ fid ne download_file_found]) simp_all
    then show ?thesis by (simp only: k g dfl p py_or_def fst_conv option.case simp_thms if_True)
  qed
  show ?thesis
    by (simp add: h g download_file_found get_message_set_message default_leave_not_empty)
qed

text \<open>
  Claim C6, amended. When a photo is consumed by a user waiting for one and the download
  yields content that is not empty, the content is stored under
  \<open>images/{kind}_{chat}_{filename}\<close>, and \<open>get_message\<close> afterwards returns that
  path together with the stored template if one was stored and is not empty, and with the
  default template of the kind if none or an empty one was stored; the pending state is
  cleared.
\<close>

theorem photo_upload_keeps_template:
  assumes "user_states b user = Some st" "st_action st = str ''upload_image''"
    "msg_photo m = Some photos" "photos \<noteq> []"
    "p_file_id (last photos) = Some file_id" "file_id \<noteq> []"
    "download_file gw = Inr (Some (content, filename))" "content \<noteq> []"
    "path = str ''images/'' @ st_message_type st @ str ''_'' @ py_str chat @ str ''_'' @ filename"
  shows
   "files (fst (handle_user_input b gw chat user text m)) path = Some content \<and>
    (fst (get_message (db b) chat (st_message_type st)) = Some t \<and> t \<noteq> [] \<longrightarrow>
       get_message (db (fst (handle_user_input b gw chat user text m))) chat (st_message_type st)
         = (Some t, Some path)) \<and>
    ((fst (get_message (db b) chat (st_message_type st)) = None \<or>
      fst (get_message (db b) chat (st_message_type st)) = Some []) \<and>
     get_default_messages (st_message_type st) = Some d \<longrightarrow>
       get_message (db (fst (handle_user_input b gw chat user text m))) chat (st_message_type st)
         = (Some d, Some path)) \<and>
    user_states (fst (handle_user_input b gw chat user text m)) user = None"
  by (auto simp add: handle_user_input_upload [OF assms(1-8)] assms(9)
      get_message_set_message py_or_def)

theorem photo_upload_keeps_template_witness:
  "user_states (bot_with sample_rows [7 \<mapsto> pending ''upload_image'']) 7
     = Some (pending ''upload_image'') \<and>
   download_file (gateway_with (str ''administrator'') file_found)
     = Inr (Some ([255, 216, 255], str ''a.jpg'')) \<and>
   fst (get_message (db (bot_with sample_rows [7 \<mapsto> pending ''upload_image'']))
          1 (str ''leave'')) = Some (str ''Bye {username}!'') \<and>
   files (fst (handle_user_input (bot_with sample_rows [7 \<mapsto> pending ''upload_image''])
                 (gateway_with (str ''administrator'') file_found) 1 7 [] photo_message))
     (str ''images/leave_1_a.jpg'') = Some [255, 216, 255] \<and>
   get_message
     (db (fst (handle_user_input (bot_with sample_rows [7 \<mapsto> pending ''upload_image''])
                 (gateway_with (str ''administrator'') file_found) 1 7 [] photo_message)))
     1 (str ''leave'')
     = (Some (str ''Bye {username}!''), Some (str ''images/leave_1_a.jpg''))"
proof -
  let ?b = "bot_with sample_rows [7 \<mapsto> pending ''upload_image'']"
  let ?gw = "gateway_with (str ''administrator'') file_found"
  have s: "user_states ?b 7 = Some (pending ''upload_image'')" by (simp add: bot_with_def)
  have a: "st_action (pending ''upload_image'') = str ''upload_image''"
    by (simp add: pending_def)
  have ph: "msg_photo photo_message
              = Some [\<lparr>p_file_id = Some (str ''small'')\<rparr>, \<lparr>p_file_id = Some (str ''large'')\<rparr>]"
    by (simp add: photo_message_def)
  have fid: "p_file_id (last [\<lparr>p_file_id = Some (str ''small'')\<rparr>,
               \<lparr>p_file_id = Some (str ''large'')\<rparr>]) = Some (str ''large'')"
    by simp
  have ne: "str ''large'' \<noteq> []" "str ''Bye {username}!'' \<noteq> []" by (simp_all add: str_def)
  have g: "fst (get_message (db ?b) 1 (str ''leave'')) = Some (str ''Bye {username}!'')"
    by (simp add: get_message_def bot_with_def sample_rows_def has_key_def)
  have k: "st_message_type (pending ''upload_image'') = str ''leave''" by (simp add: pending_def)
  have p: "str ''images/'' @ str ''leave'' @ str ''_'' @ py_str 1 @ str ''_'' @ str ''a.jpg''
           = str ''images/leave_1_a.jpg''"
    by (simp add: py_str_1) (simp add: str_def)
  have nonempty: "[255, 216, 255] \<noteq> ([]::nat list)" by simp
  note t = photo_upload_keeps_template [of _ _ _ _ _ _ _ _ _ _ 1 "[]" "str ''Bye {username}!''" "[]",
      OF s a ph _ fid ne(1) download_file_found nonempty refl]
  show ?thesis using t s g ne(2) by (simp add: k p download_file_found)
qed

section \<open>Sending the farewell\<close>

lemma acknowledged_iff: "acknowledged result \<longleftrightarrow> result = Some True"
  by (cases result) (simp_all add: acknowledged_def)

lemma message_text_of_eq:
  assumes "fst (get_message (db b) chat kind) = custom_message"
    "get_default_messages kind = Some dflt"
  shows "message_text_of b format_other chat kind name =
         py_format format_other (py_or custom_message dflt) name"
  using assms by (auto simp add: message_text_of_def py_or_def Let_def split: option.splits)

lemma deliver_eq:
  "deliver b gw chat custom_image caption =
     (if usable_image b custom_image
      then [SendPhoto chat (py_or custom_image []) caption] else []) @
     (if usable_image b custom_image \<and> custom_photo_reply gw = Some True then []
      else (if files b fallback_image \<noteq> None
            then [SendPhoto chat fallback_image caption] else []) @
           (if files b fallback_image \<noteq> None \<and> default_photo_reply gw = Some True then []
            else [SendMessage chat (Text caption)]))"
  by (cases custom_image)
     (auto simp add: deliver_def usable_image_def fallback_image_def py_or_def Let_def
        acknowledged_iff)

lemma event_kind_has_default:
  "event_kind u = Some kind \<Longrightarrow> get_default_messages kind \<noteq> None"
  by (auto simp add: event_kind_def message_type_of_def get_default_messages_def Let_def
      split: if_splits)

lemma substitute_example:
  "substitute (str ''Bye {username}!'') (str ''@bob'') = Some (str ''Bye @bob!'')"
  by (simp add: str_def)

text \<open>
  The three default templates hold the field \<open>{username}\<close> once and no other brace,
  so their formatting never depends on \<open>format_other\<close>.
\<close>

lemma default_templates_substitute:
  "substitute default_leave u = Some (take 9 default_leave @ u @ drop 19 default_leave)"
  "substitute default_kick u = Some (take 7 default_kick @ u @ drop 17 default_kick)"
  "substitute default_ban u = Some (take 23 default_ban @ u @ drop 33 default_ban)"
  by (simp_all add: default_leave_def default_kick_def default_ban_def str_def)

lemma member_left_facts:
  "event_kind member_left = Some (str ''leave'')"
  "cm_old_user member_left
     = Some \<lparr>u_username = Some (str ''bob''), u_first_name = None, u_last_name = None\<rparr>"
  "get_id (cm_chat_id member_left) = 1"
  "display_name \<lparr>u_username = Some (str ''bob''), u_first_name = None, u_last_name = None\<rparr>
     = str ''@bob''"
     apply (simp add: event_kind_def message_type_of_def member_left_def member_kicked_def
        missing_def str_def)
    apply (simp add: member_left_def member_kicked_def)
   apply (simp add: member_left_def member_kicked_def get_id_def)
  apply (simp add: display_name_def py_or_def str_def)
  done

text \<open>
  Claim C3, as stated, fails in two places. Where the stored template is not a format
  string with the one field \<open>username\<close> (here \<open>Bye {user}\<close>), \<open>str.format\<close>
  raises, the handler's \<open>except\<close> is reached and nothing is sent, neither image nor
  text. And where the stored template is the empty string, the default template is sent,
  not the stored one.
\<close>

theorem farewell_not_sent_for_bad_template:
  "event_kind member_left = Some (str ''leave'') \<and>
   get_message (db (bot_with bad_template_rows Map.empty)) 1 (str ''leave'')
     = (Some (str ''Bye {user}''), None) \<and>
   py_format no_format (str ''Bye {user}'') (str ''@bob'') = Inl FormatError \<and>
   handle_chat_member_update (bot_with bad_template_rows Map.empty)
     (gateway_with (str ''member'') Raises) no_format (Some member_left) = [] \<and>
   get_message (db (bot_with empty_template_rows Map.empty)) 1 (str ''leave'')
     = (Some [], None) \<and>
   handle_chat_member_update (bot_with empty_template_rows Map.empty)
     (gateway_with (str ''member'') Raises) no_format (Some member_left)
     = [SendMessage 1 (Text (take 9 default_leave @ str ''@bob'' @ drop 19 default_leave))] \<and>
   take 9 default_leave @ str ''@bob'' @ drop 19 default_leave \<noteq> []"
proof -
  let ?bad = "bot_with bad_template_rows Map.empty"
  let ?empty = "bot_with empty_template_rows Map.empty"
  let ?gw = "gateway_with (str ''member'') Raises"
  have g1: "get_message (db ?bad) 1 (str ''leave'') = (Some (str ''Bye {user}''), None)"
    by (simp add: get_message_def bot_with_def bad_template_rows_def has_key_def)
  have g2: "get_message (db ?empty) 1 (str ''leave'') = (Some [], None)"
    by (simp add: get_message_def bot_with_def empty_template_rows_def has_key_def)
  have ne: "str ''Bye {user}'' \<noteq> []" "str ''@bob'' \<noteq> []" by (simp_all add: str_def)
  have s1: "substitute (str ''Bye {user}'') (str ''@bob'') = None" by (simp add: str_def)
  have f1: "py_format no_format (str ''Bye {user}'') (str ''@bob'') = Inl FormatError"
    by (simp add: py_format_def s1 no_format_def)
  have t1: "message_text_of ?bad no_format 1 (str ''leave'') (str ''@bob'') = Inl FormatError"
    using ne(1) by (simp add: message_text_of_def g1 py_or_def f1)
  have h1: "handle_chat_member_update ?bad ?gw no_format (Some member_left) = []"
    by (simp add: handle_chat_member_update_def member_left_facts t1)
  have d: "get_default_messages (str ''leave'') = Some default_leave"
    by (simp add: get_default_messages_def)
  have f2: "py_format no_format default_leave (str ''@bob'')
              = Inr (take 9 default_leave @ str ''@bob'' @ drop 19 default_leave)"
    by (simp only: py_format_def default_templates_substitute(1) option.case)
  have t2: "message_text_of ?empty no_format 1 (str ''leave'') (str ''@bob'')
              = Inr (take 9 default_leave @ str ''@bob'' @ drop 19 default_leave)"
    by (simp add: message_text_of_def g2 d f2)
  have dl: "deliver ?empty ?gw 1 None (take 9 default_leave @ str ''@bob'' @ drop 19 default_leave)
              = [SendMessage 1 (Text (take 9 default_leave @ str ''@bob'' @ drop 19 default_leave))]"
    by (simp add: deliver_def bot_with_def)
  have h2: "handle_chat_member_update ?empty ?gw no_format (Some member_left)
              = [SendMessage 1 (Text (take 9 default_leave @ str ''@bob'' @ drop 19 default_leave))]"
    by (simp only: handle_chat_member_update_def member_left_facts t2 g2 dl
        option.case prod.case sum.case Let_def snd_conv)
  show ?thesis using ne(2) by (simp add: member_left_facts(1) g1 g2 f1 h1 h2)
qed

text \<open>
  Claim C3, amended. For a classified membership change, with the stored settings
  \<open>(custom_message, custom_image)\<close> of the chat and kind: the template is the custom
  message if one is stored and not empty and the default of the kind otherwise; where
  formatting that template with the display name succeeds, its result is the caption, and
  the handler sends, in this order, the custom image with the caption if it can be sent,
  then (unless that send was acknowledged) the fallback image with the caption if its file
  exists, then (unless that send was acknowledged) the caption as plain text. A send counts
  only if it returned a reply whose \<open>ok\<close> flag is set.
\<close>

theorem farewell_delivery_order:
  assumes "event_kind u = Some kind" "cm_old_user u = Some usr"
    "chat = get_id (cm_chat_id u)"
    "get_message (db b) chat kind = (custom_message, custom_image)"
    "get_default_messages kind = Some dflt"
    "py_format format_other (py_or custom_message dflt) (display_name usr) = Inr caption"
  shows "handle_chat_member_update b gw format_other (Some u) =
     (if usable_image b custom_image
      then [SendPhoto chat (py_or custom_image []) caption] else []) @
     (if usable_image b custom_image \<and> custom_photo_reply gw = Some True then []
      else (if files b fallback_image \<noteq> None
            then [SendPhoto chat fallback_image caption] else []) @
           (if files b fallback_image \<noteq> None \<and> default_photo_reply gw = Some True then []
            else [SendMessage chat (Text caption)]))"
proof -
  have mt: "message_text_of b format_other chat kind (display_name usr) = Inr caption"
    using message_text_of_eq [of b chat kind custom_message dflt] assms(4,5,6) by simp
  have "handle_chat_member_update b gw format_other (Some u) =
        deliver b gw chat custom_image caption"
    using assms(1,2,4) mt
    by (simp add: handle_chat_member_update_def Let_def assms(3) [symmetric])
  then show ?thesis by (simp only: deliver_eq)
qed

theorem farewell_delivery_order_witness:
  "event_kind member_left = Some (str ''leave'') \<and>
   get_message (db bot_with_images) 1 (str ''leave'')
     = (Some (str ''Bye {username}!''), Some (str ''images/leave_1_old.jpg'')) \<and>
   py_format no_format (str ''Bye {username}!'') (str ''@bob'') = Inr (str ''Bye @bob!'') \<and>
   handle_chat_member_update bot_with_images (gateway_with (str ''member'') Raises) no_format
     (Some member_left)
     = [SendPhoto 1 (str ''images/leave_1_old.jpg'') (str ''Bye @bob!''),
        SendPhoto 1 fallback_image (str ''Bye @bob!''),
        SendMessage 1 (Text (str ''Bye @bob!''))] \<and>
   handle_chat_member_update bot_with_images
     ((gateway_with (str ''member'') Raises)\<lparr>custom_photo_reply := Some True\<rparr>) no_format
     (Some member_left)
     = [SendPhoto 1 (str ''images/leave_1_old.jpg'') (str ''Bye @bob!'')]"
proof -
  let ?usr = "\<lparr>u_username = Some (str ''bob''), u_first_name = None, u_last_name = None\<rparr>"
  have ek: "event_kind member_left = Some (str ''leave'')"
    by (simp add: event_kind_def message_type_of_def member_left_def member_kicked_def
        missing_def str_def)
  have usr: "cm_old_user member_left = Some ?usr"
    by (simp add: member_left_def member_kicked_def)
  have chat: "1 = get_id (cm_chat_id member_left)"
    by (simp add: member_left_def member_kicked_def get_id_def)
  have g: "get_message (db bot_with_images) 1 (str ''leave'')
     = (Some (str ''Bye {username}!''), Some (str ''images/leave_1_old.jpg''))"
    by (simp add: get_message_def bot_with_images_def bot_with_def sample_rows_def has_key_def)
  have d: "get_default_messages (str ''leave'') = Some default_leave"
    by (simp add: get_default_messages_def)
  have name: "display_name ?usr = str ''@bob''"
    by (simp add: display_name_def py_or_def str_def)
  have ne: "str ''Bye {username}!'' \<noteq> []" "str ''images/leave_1_old.jpg'' \<noteq> []"
    by (simp_all add: str_def)
  have f: "py_format no_format (str ''Bye {username}!'') (str ''@bob'') = Inr (str ''Bye @bob!'')"
    by (simp add: py_format_def substitute_example)
  have fm: "py_format no_format (py_or (Some (str ''Bye {username}!'')) default_leave)
              (display_name ?usr) = Inr (str ''Bye @bob!'')"
    using ne(1) by (simp add: py_or_def name f)
  have im: "usable_image bot_with_images (Some (str ''images/leave_1_old.jpg''))"
    using ne(2) by (simp add: usable_image_def bot_with_images_def)
  have fb: "files bot_with_images fallback_image \<noteq> None"
    by (simp add: bot_with_images_def)
  have po: "py_or (Some (str ''images/leave_1_old.jpg'')) [] = str ''images/leave_1_old.jpg''"
    using ne(2) by (simp add: py_or_def)
  have r1: "custom_photo_reply (gateway_with (str ''member'') Raises) = Some False"
    "default_photo_reply (gateway_with (str ''member'') Raises) = None"
    by (simp_all add: gateway_with_def)
  show ?thesis
    using farewell_delivery_order [OF ek usr chat g d fm, of "gateway_with (str ''member'') Raises"]
      farewell_delivery_order [OF ek usr chat g d fm,
          of "(gateway_with (str ''member'') Raises)\<lparr>custom_photo_reply := Some True\<rparr>"]
    by (simp add: ek g f im fb po r1)
qed

end
